theory Spec2Isabelle
  imports Complex_Main "HOL-Library.Sublist"
begin

section \<open>Python values, dictionaries and exceptions\<close>

text \<open>
  The recommendation service (\<^verbatim>\<open>app/services/recommendation.py\<close>) works on plain Python
  dictionaries whose values are numbers, strings, lists of strings, lists of
  \<^verbatim>\<open>Ingredient\<close> rows, or \<^verbatim>\<open>None\<close> (a nullable column that holds NULL). Numbers are
  modelled as reals: every comparison of the source is against an integer literal, and
  the only arithmetic on them is \<^verbatim>\<open>+ 0.2\<close> and the standardisation of one sample;
  the rounding of floating-point arithmetic is not modelled.

  Exceptions are values: the Python exception classes the modelled code can raise, with
  \<open>ConversionError\<close> for a value that numpy, scikit-learn or torch refuse to convert
  and \<open>LoadError\<close> for a weights file that cannot be read or does not fit the network.
  A function that can raise returns \<open>error + result\<close>.
\<close>

datatype error =
    NameError string
  | KeyError string
  | TypeError
  | AttributeError
  | ConversionError
  | JSONDecodeError
  | ZeroDivisionError
  | LoadError

record ingredient =
  name :: string
  common_allergens :: "string option"

datatype pyval =
    PNone
  | PNum real
  | PStr string
  | PStrs "string list"
  | PIngredients "ingredient list"

type_synonym pydict = "string \<rightharpoonup> pyval"

text \<open>\<^verbatim>\<open>d.get(k, default)\<close>: the default only when the key is absent.\<close>

definition dict_get :: "pydict \<Rightarrow> string \<Rightarrow> pyval \<Rightarrow> pyval" where
  "dict_get d k dflt = (case d k of None \<Rightarrow> dflt | Some v \<Rightarrow> v)"

text \<open>
  \<^verbatim>\<open>v > t\<close> and \<^verbatim>\<open>v < t\<close> with \<^verbatim>\<open>t\<close> an integer: defined on numbers, a
  \<^verbatim>\<open>TypeError\<close> on \<^verbatim>\<open>None\<close>, strings and lists.
\<close>

fun py_gt :: "pyval \<Rightarrow> real \<Rightarrow> error + bool" where
  "py_gt (PNum x) t = Inr (x > t)"
| "py_gt _ t = Inl TypeError"

fun py_lt :: "pyval \<Rightarrow> real \<Rightarrow> error + bool" where
  "py_lt (PNum x) t = Inr (x < t)"
| "py_lt _ t = Inl TypeError"

section \<open>The service object\<close>

record flag_spec =
  threshold :: real
  unit :: string

record recipe_embedding =
  input_dim :: nat
  embedding_dim :: nat

text \<open>
  A fitted \<^verbatim>\<open>StandardScaler\<close> keeps the per-column mean and scale (its attributes
  \<^verbatim>\<open>mean_\<close> and \<^verbatim>\<open>scale_\<close>) of its last
  \<^verbatim>\<open>fit\<close>; \<^verbatim>\<open>None\<close> is the unfitted scaler of \<^verbatim>\<open>__init__\<close>.
\<close>

record scaler_state =
  scaler_mean :: "real list"
  scaler_scale :: "real list"

record service =
  device :: string
  model :: "recipe_embedding option"
  scaler :: "scaler_state option"
  food_flags :: "string \<rightharpoonup> flag_spec"

definition init_food_flags :: "string \<rightharpoonup> flag_spec" where
  "init_food_flags =
     [''high_sodium'' \<mapsto> \<lparr>threshold = 500, unit = ''mg''\<rparr>,
      ''high_sugar'' \<mapsto> \<lparr>threshold = 25, unit = ''g''\<rparr>,
      ''high_fat'' \<mapsto> \<lparr>threshold = 20, unit = ''g''\<rparr>,
      ''high_calories'' \<mapsto> \<lparr>threshold = 500, unit = ''kcal''\<rparr>,
      ''high_carbs'' \<mapsto> \<lparr>threshold = 50, unit = ''g''\<rparr>,
      ''low_protein'' \<mapsto> \<lparr>threshold = 10, unit = ''g''\<rparr>]"

text \<open>\<^verbatim>\<open>RecommendationService.__init__\<close>; the device is what torch reports.\<close>

definition init_service :: "string \<Rightarrow> service" where
  "init_service dev =
     \<lparr>device = dev, model = None, scaler = None, food_flags = init_food_flags\<rparr>"

section \<open>Food flags\<close>

text \<open>
  One \<^verbatim>\<open>if recipe.get(field, 0) <cmp> self.food_flags[flag]['threshold']:
  flags.append(flag)\<close> statement of \<^verbatim>\<open>check_food_flags\<close>. The left operand is read
  first, then the threshold (a \<^verbatim>\<open>KeyError\<close> when the table lacks the flag), then the
  comparison is made.
\<close>

definition flag_step ::
  "service \<Rightarrow> pydict \<Rightarrow> string \<Rightarrow> string \<Rightarrow> (pyval \<Rightarrow> real \<Rightarrow> error + bool)
     \<Rightarrow> string list \<Rightarrow> error + string list" where
  "flag_step svc recipe field flag cmp flags =
     (let v = dict_get recipe field (PNum 0) in
      case food_flags svc flag of
        None \<Rightarrow> Inl (KeyError flag)
      | Some spec \<Rightarrow>
          (case cmp v (threshold spec) of
             Inl e \<Rightarrow> Inl e
           | Inr b \<Rightarrow> Inr (if b then flags @ [flag] else flags)))"

definition check_food_flags :: "service \<Rightarrow> pydict \<Rightarrow> error + string list" where
  "check_food_flags svc recipe =
     (case flag_step svc recipe ''sodium'' ''high_sodium'' py_gt [] of
        Inl e \<Rightarrow> Inl e
      | Inr f1 \<Rightarrow>
     (case flag_step svc recipe ''sugar'' ''high_sugar'' py_gt f1 of
        Inl e \<Rightarrow> Inl e
      | Inr f2 \<Rightarrow>
     (case flag_step svc recipe ''fat'' ''high_fat'' py_gt f2 of
        Inl e \<Rightarrow> Inl e
      | Inr f3 \<Rightarrow>
     (case flag_step svc recipe ''calories'' ''high_calories'' py_gt f3 of
        Inl e \<Rightarrow> Inl e
      | Inr f4 \<Rightarrow>
     (case flag_step svc recipe ''carbs'' ''high_carbs'' py_gt f4 of
        Inl e \<Rightarrow> Inl e
      | Inr f5 \<Rightarrow>
        flag_step svc recipe ''protein'' ''low_protein'' py_lt f5)))))"

text \<open>
  A field is numeric when the key is absent or bound to a number; \<open>num_field\<close> is the
  number \<^verbatim>\<open>recipe.get(field, 0)\<close> then evaluates to.
\<close>

definition numeric :: "pydict \<Rightarrow> string \<Rightarrow> bool" where
  "numeric d k = (case d k of None \<Rightarrow> True | Some (PNum x) \<Rightarrow> True | Some _ \<Rightarrow> False)"

definition num_field :: "pydict \<Rightarrow> string \<Rightarrow> real" where
  "num_field d k = (case d k of Some (PNum x) \<Rightarrow> x | _ \<Rightarrow> 0)"

definition nutrition_numeric :: "pydict \<Rightarrow> bool" where
  "nutrition_numeric d =
     (numeric d ''sodium'' \<and> numeric d ''sugar'' \<and> numeric d ''fat'' \<and>
      numeric d ''calories'' \<and> numeric d ''carbs'' \<and> numeric d ''protein'')"

text \<open>The flags the thresholds of \<^verbatim>\<open>__init__\<close> select, in the order the source appends them.\<close>

definition expected_flags :: "pydict \<Rightarrow> string list" where
  "expected_flags d =
     (if num_field d ''sodium'' > 500 then [''high_sodium''] else []) @
     (if num_field d ''sugar'' > 25 then [''high_sugar''] else []) @
     (if num_field d ''fat'' > 20 then [''high_fat''] else []) @
     (if num_field d ''calories'' > 500 then [''high_calories''] else []) @
     (if num_field d ''carbs'' > 50 then [''high_carbs''] else []) @
     (if num_field d ''protein'' < 10 then [''low_protein''] else [])"


section \<open>Library behaviour the module relies on\<close>

text \<open>
  The module calls into the standard library, numpy, scikit-learn and torch. What those
  calls return on the data at hand is collected in one record, passed to every function
  that uses it:
  \<^item> \<open>json_loads\<close>: \<^verbatim>\<open>json.loads\<close> on the text of a preference or allergen column, which
    holds a JSON array of strings, or raises \<^verbatim>\<open>JSONDecodeError\<close>;
  \<^item> \<open>np_float_row\<close>: \<^verbatim>\<open>np.array(features).reshape(1, -1)\<close> as scikit-learn's input
    validation reads it: the row of floats, or the exception raised for an entry that is
    not a number;
  \<^item> \<open>set_to_list\<close>: the iteration order of \<^verbatim>\<open>list(set(xs))\<close>;
  \<^item> \<open>torch_load\<close>: the outcome of reading the weights file in \<^verbatim>\<open>load_model\<close>
    (\<open>None\<close> when it succeeds);
  \<^item> \<open>str_exc\<close>: \<^verbatim>\<open>str(e)\<close> of a caught exception.
\<close>

record library =
  json_loads :: "string \<Rightarrow> error + string list"
  np_float_row :: "pyval list \<Rightarrow> error + real list"
  set_to_list :: "int list \<Rightarrow> int list"
  torch_load :: "error option"
  str_exc :: "error \<Rightarrow> string"

section \<open>Names the module binds\<close>

text \<open>
  The imports of \<^verbatim>\<open>recommendation.py\<close> are \<^verbatim>\<open>torch\<close>, \<^verbatim>\<open>torch.nn as nn\<close>,
  \<^verbatim>\<open>numpy as np\<close>, \<^verbatim>\<open>List, Dict, Optional\<close>, \<^verbatim>\<open>StandardScaler\<close>, \<^verbatim>\<open>settings\<close> and
  \<^verbatim>\<open>json\<close>; the module defines the classes \<^verbatim>\<open>RecipeEmbedding\<close> and
  \<^verbatim>\<open>RecommendationService\<close>. Reading any other global name (none of the names used
  below is a builtin) raises \<^verbatim>\<open>NameError\<close>.
\<close>

definition module_globals :: "string list" where
  "module_globals =
     [''torch'', ''nn'', ''np'', ''List'', ''Dict'', ''Optional'', ''StandardScaler'',
      ''settings'', ''json'', ''RecipeEmbedding'', ''RecommendationService'']"

definition global_name :: "string \<Rightarrow> error + unit" where
  "global_name n = (if n \<in> set module_globals then Inr () else Inl (NameError n))"

section \<open>The database\<close>

text \<open>
  The rows of \<^verbatim>\<open>app/models/models.py\<close> that the service reads. The four preference
  columns of a user are nullable strings of JSON text. A recipe row is its primary key
  and the \<^verbatim>\<open>__dict__\<close> of its instance, which is what the service passes around.
\<close>

record user_row =
  u_id :: int
  u_dietary_restrictions :: "string option"
  u_favorite_cuisines :: "string option"
  u_allergies :: "string option"
  u_food_flags :: "string option"

record recipe_row =
  r_id :: int
  r_dict :: pydict

record interaction_row =
  i_user_id :: int
  i_recipe_id :: int
  i_interaction_type :: string

record database =
  users_table :: "user_row list"
  recipes_table :: "recipe_row list"
  interactions_table :: "interaction_row list"

text \<open>\<^verbatim>\<open>query.filter(...).first()\<close>: the first matching row, or \<^verbatim>\<open>None\<close>.\<close>

definition first_where :: "('a \<Rightarrow> bool) \<Rightarrow> 'a list \<Rightarrow> 'a option" where
  "first_where p rows = find p rows"

section \<open>Feature vectors\<close>

text \<open>
  \<^verbatim>\<open>StandardScaler.fit\<close> on a matrix given as its list of rows: the mean and the
  population standard deviation of every column, a zero deviation replaced by 1
  (scikit-learn's \<^verbatim>\<open>_handle_zeros_in_scale\<close>); \<^verbatim>\<open>transform\<close> maps \<open>x\<close> to
  \<open>(x - mean) / scale\<close> column by column.
\<close>

definition column :: "real list list \<Rightarrow> nat \<Rightarrow> real list" where
  "column X j = map (\<lambda>row. row ! j) X"

definition mean :: "real list \<Rightarrow> real" where
  "mean xs = sum_list xs / real (length xs)"

definition std_scale :: "real list \<Rightarrow> real" where
  "std_scale xs =
     (let s = sqrt (sum_list (map (\<lambda>x. (x - mean xs)\<^sup>2) xs) / real (length xs))
      in if s = 0 then 1 else s)"

definition scaler_fit :: "real list list \<Rightarrow> scaler_state" where
  "scaler_fit X =
     (let n = (case X of [] \<Rightarrow> 0 | row # _ \<Rightarrow> length row)
      in \<lparr>scaler_mean = map (\<lambda>j. mean (column X j)) [0..<n],
          scaler_scale = map (\<lambda>j. std_scale (column X j)) [0..<n]\<rparr>)"

definition scaler_transform :: "scaler_state \<Rightarrow> real list list \<Rightarrow> real list list" where
  "scaler_transform st X =
     map (\<lambda>row. map (\<lambda>(x, m, s). (x - m) / s) (zip row (zip (scaler_mean st) (scaler_scale st)))) X"

text \<open>
  \<^verbatim>\<open>get_recipe_features\<close>: the eight features of the dict (default 0, for
  \<^verbatim>\<open>servings\<close> 1), turned into a 1 x 8 array and standardised by
  \<^verbatim>\<open>self.scaler.fit_transform\<close>, which refits the service's scaler on that one row.
  The result is the tensor as its list of rows.
\<close>

definition feature_values :: "pydict \<Rightarrow> pyval list" where
  "feature_values recipe =
     [dict_get recipe ''calories'' (PNum 0),
      dict_get recipe ''protein'' (PNum 0),
      dict_get recipe ''carbs'' (PNum 0),
      dict_get recipe ''fat'' (PNum 0),
      dict_get recipe ''fiber'' (PNum 0),
      dict_get recipe ''prep_time'' (PNum 0),
      dict_get recipe ''cook_time'' (PNum 0),
      dict_get recipe ''servings'' (PNum 1)]"

definition get_recipe_features ::
  "library \<Rightarrow> service \<Rightarrow> pydict \<Rightarrow> error + (real list list \<times> service)" where
  "get_recipe_features lib svc recipe =
     (case np_float_row lib (feature_values recipe) of
        Inl e \<Rightarrow> Inl e
      | Inr row \<Rightarrow>
          (let st = scaler_fit [row]
           in Inr (scaler_transform st [row], svc\<lparr>scaler := Some st\<rparr>)))"

text \<open>
  \<^verbatim>\<open>torch.cosine_similarity(x1, x2)\<close> along dimension 1 with the default
  \<^verbatim>\<open>eps = 1e-8\<close>: one value per row, the dot product over the product of the two norms,
  each norm clamped from below by \<open>eps\<close>. \<^verbatim>\<open>.item()\<close> reads a tensor of one element.
\<close>

definition dot :: "real list \<Rightarrow> real list \<Rightarrow> real" where
  "dot x y = sum_list (map (\<lambda>(a, b). a * b) (zip x y))"

definition norm2 :: "real list \<Rightarrow> real" where
  "norm2 x = sqrt (dot x x)"

definition cosine_row :: "real list \<Rightarrow> real list \<Rightarrow> real" where
  "cosine_row x y = dot x y / (max (norm2 x) (1 / 10 ^ 8) * max (norm2 y) (1 / 10 ^ 8))"

definition cosine_similarity :: "real list list \<Rightarrow> real list list \<Rightarrow> real list" where
  "cosine_similarity X Y = map (\<lambda>(x, y). cosine_row x y) (zip X Y)"

fun item :: "real list \<Rightarrow> error + real" where
  "item [v] = Inr v"
| "item _ = Inl ConversionError"

section \<open>User preferences\<close>

text \<open>
  The preferences are a dict with the keys \<^verbatim>\<open>dietary_restrictions\<close>,
  \<^verbatim>\<open>favorite_cuisines\<close>, \<^verbatim>\<open>allergies\<close> and \<^verbatim>\<open>food_flags\<close>, each a list of strings.
\<close>

type_synonym preferences = "string \<rightharpoonup> string list"

text \<open>\<^verbatim>\<open>json.loads(column or "[]")\<close>: NULL and the empty string read as \<^verbatim>\<open>"[]"\<close>.\<close>

definition loads_or_empty :: "library \<Rightarrow> string option \<Rightarrow> error + string list" where
  "loads_or_empty lib col =
     json_loads lib (case col of None \<Rightarrow> ''[]'' | Some s \<Rightarrow> if s = [] then ''[]'' else s)"

definition user_preferences :: "library \<Rightarrow> user_row \<Rightarrow> error + preferences" where
  "user_preferences lib user =
     (case loads_or_empty lib (u_dietary_restrictions user) of
        Inl e \<Rightarrow> Inl e
      | Inr dr \<Rightarrow>
     (case loads_or_empty lib (u_favorite_cuisines user) of
        Inl e \<Rightarrow> Inl e
      | Inr fc \<Rightarrow>
     (case loads_or_empty lib (u_allergies user) of
        Inl e \<Rightarrow> Inl e
      | Inr al \<Rightarrow>
     (case loads_or_empty lib (u_food_flags user) of
        Inl e \<Rightarrow> Inl e
      | Inr ff \<Rightarrow>
          Inr [''dietary_restrictions'' \<mapsto> dr, ''favorite_cuisines'' \<mapsto> fc,
               ''allergies'' \<mapsto> al, ''food_flags'' \<mapsto> ff]))))"

definition empty_preferences :: preferences where
  "empty_preferences =
     [''dietary_restrictions'' \<mapsto> [], ''favorite_cuisines'' \<mapsto> [],
      ''allergies'' \<mapsto> [], ''food_flags'' \<mapsto> []]"

text \<open>
  \<^verbatim>\<open>get_user_preferences\<close>. Its first statement is
  \<^verbatim>\<open>db.query(User).filter(User.id == user_id).first()\<close>, which reads the global
  \<^verbatim>\<open>User\<close>; \<open>get_user_preferences_body\<close> is the function once that name is resolved.
\<close>

definition get_user_preferences_body ::
  "library \<Rightarrow> int \<Rightarrow> database \<Rightarrow> error + preferences" where
  "get_user_preferences_body lib user_id db =
     (case first_where (\<lambda>u. u_id u = user_id) (users_table db) of
        None \<Rightarrow> Inr empty_preferences
      | Some user \<Rightarrow> user_preferences lib user)"

definition get_user_preferences :: "library \<Rightarrow> int \<Rightarrow> database \<Rightarrow> error + preferences" where
  "get_user_preferences lib user_id db =
     (case global_name ''User'' of
        Inl e \<Rightarrow> Inl e
      | Inr _ \<Rightarrow> get_user_preferences_body lib user_id db)"

section \<open>Collaborative filtering\<close>

definition find_similar_users :: "int \<Rightarrow> database \<Rightarrow> int list" where
  "find_similar_users user_id db = []"

definition get_recipes_from_similar_users :: "int list \<Rightarrow> database \<Rightarrow> int list" where
  "get_recipes_from_similar_users similar_users db = []"

text \<open>
  \<^verbatim>\<open>collaborative_filtering\<close> first queries the user's interactions, reading the
  global \<^verbatim>\<open>UserRecipeInteraction\<close>, then calls the two helpers.
\<close>

definition collaborative_filtering :: "int \<Rightarrow> database \<Rightarrow> error + int list" where
  "collaborative_filtering user_id db =
     (case global_name ''UserRecipeInteraction'' of
        Inl e \<Rightarrow> Inl e
      | Inr _ \<Rightarrow>
          (let user_interactions = filter (\<lambda>i. i_user_id i = user_id) (interactions_table db);
               similar_users = find_similar_users user_id db;
               recommended_recipes = get_recipes_from_similar_users similar_users db
           in Inr recommended_recipes))"

section \<open>Content-based filtering\<close>

text \<open>
  The loop of \<^verbatim>\<open>content_based_filtering\<close> over \<^verbatim>\<open>db.query(Recipe).all()\<close>: the target
  is skipped, every other recipe is scored against the target's features. The result
  is the list of \<^verbatim>\<open>{'id', 'match_score'}\<close> entries in the order of the rows.
\<close>

fun similar_loop ::
  "library \<Rightarrow> service \<Rightarrow> real list list \<Rightarrow> int \<Rightarrow> recipe_row list
     \<Rightarrow> error + ((int \<times> real) list \<times> service)" where
  "similar_loop lib svc target_features recipe_id [] = Inr ([], svc)"
| "similar_loop lib svc target_features recipe_id (recipe # rest) =
     (if r_id recipe = recipe_id then similar_loop lib svc target_features recipe_id rest
      else
        (case get_recipe_features lib svc (r_dict recipe) of
           Inl e \<Rightarrow> Inl e
         | Inr (recipe_features, svc1) \<Rightarrow>
        (case item (cosine_similarity target_features recipe_features) of
           Inl e \<Rightarrow> Inl e
         | Inr similarity \<Rightarrow>
        (case similar_loop lib svc1 target_features recipe_id rest of
           Inl e \<Rightarrow> Inl e
         | Inr (similar_recipes, svc2) \<Rightarrow>
             Inr ((r_id recipe, similarity) # similar_recipes, svc2)))))"

text \<open>
  \<^verbatim>\<open>list.sort(key=..., reverse=True)\<close> is stable: entries with equal keys keep their
  order. That is the stable ascending sort on the negated key.
\<close>

definition sort_desc :: "('a \<Rightarrow> real) \<Rightarrow> 'a list \<Rightarrow> 'a list" where
  "sort_desc key xs = sort_key (\<lambda>x. - key x) xs"

text \<open>The body of \<^verbatim>\<open>content_based_filtering\<close> once the name \<^verbatim>\<open>Recipe\<close> is resolved.\<close>

definition content_based_body ::
  "library \<Rightarrow> service \<Rightarrow> int \<Rightarrow> database \<Rightarrow> error + (int list \<times> service)" where
  "content_based_body lib svc recipe_id db =
     (case first_where (\<lambda>r. r_id r = recipe_id) (recipes_table db) of
        None \<Rightarrow> Inr ([], svc)
      | Some target_recipe \<Rightarrow>
          (case get_recipe_features lib svc (r_dict target_recipe) of
             Inl e \<Rightarrow> Inl e
           | Inr (target_features, svc1) \<Rightarrow>
          (case similar_loop lib svc1 target_features recipe_id (recipes_table db) of
             Inl e \<Rightarrow> Inl e
           | Inr (similar_recipes, svc2) \<Rightarrow>
               Inr (map fst (sort_desc snd similar_recipes), svc2))))"

definition content_based_filtering ::
  "library \<Rightarrow> service \<Rightarrow> int \<Rightarrow> database \<Rightarrow> error + (int list \<times> service)" where
  "content_based_filtering lib svc recipe_id db =
     (case global_name ''Recipe'' of
        Inl e \<Rightarrow> Inl e
      | Inr _ \<Rightarrow> content_based_body lib svc recipe_id db)"


section \<open>Filtering by preferences\<close>

text \<open>
  \<^verbatim>\<open>s in v\<close> for a string \<open>s\<close>: membership in a list of strings, the substring test
  on a string, \<^verbatim>\<open>False\<close> on a list of rows (no row equals a string), and a
  \<^verbatim>\<open>TypeError\<close> on \<^verbatim>\<open>None\<close> and on a number.
\<close>

fun py_contains :: "pyval \<Rightarrow> string \<Rightarrow> error + bool" where
  "py_contains (PStrs l) s = Inr (s \<in> set l)"
| "py_contains (PStr t) s = Inr (sublist s t)"
| "py_contains (PIngredients l) s = Inr False"
| "py_contains PNone s = Inl TypeError"
| "py_contains (PNum x) s = Inl TypeError"

text \<open>
  \<^verbatim>\<open>any(x in container for x in xs)\<close>: the generator is consumed up to the first
  \<^verbatim>\<open>True\<close>; nothing is evaluated when \<open>xs\<close> is empty.
\<close>

fun any_in :: "string list \<Rightarrow> pyval \<Rightarrow> error + bool" where
  "any_in [] container = Inr False"
| "any_in (x # xs) container =
     (case py_contains container x of
        Inl e \<Rightarrow> Inl e
      | Inr b \<Rightarrow> if b then Inr True else any_in xs container)"

text \<open>
  The loop of \<^verbatim>\<open>check_recipe_allergens\<close> over the ingredient rows: each row's
  \<^verbatim>\<open>common_allergens\<close> is decoded, and the first row with one of the user's allergens
  ends the loop with \<^verbatim>\<open>True\<close>.
\<close>

fun allergen_loop :: "library \<Rightarrow> ingredient list \<Rightarrow> string list \<Rightarrow> error + bool" where
  "allergen_loop lib [] user_allergies = Inr False"
| "allergen_loop lib (ing # rest) user_allergies =
     (case loads_or_empty lib (common_allergens ing) of
        Inl e \<Rightarrow> Inl e
      | Inr allergens \<Rightarrow>
          if \<exists>allergen \<in> set user_allergies. allergen \<in> set allergens then Inr True
          else allergen_loop lib rest user_allergies)"

text \<open>
  \<^verbatim>\<open>check_recipe_allergens\<close>. Iterating \<^verbatim>\<open>recipe.get('ingredients', [])\<close> raises
  \<^verbatim>\<open>TypeError\<close> on \<^verbatim>\<open>None\<close> and on a number; the elements of a string or of a list of
  strings have no attribute \<^verbatim>\<open>common_allergens\<close>.
\<close>

definition check_recipe_allergens :: "library \<Rightarrow> pydict \<Rightarrow> string list \<Rightarrow> error + bool" where
  "check_recipe_allergens lib recipe user_allergies =
     (case dict_get recipe ''ingredients'' (PIngredients []) of
        PIngredients recipe_ingredients \<Rightarrow> allergen_loop lib recipe_ingredients user_allergies
      | PStrs l \<Rightarrow> if l = [] then Inr False else Inl AttributeError
      | PStr t \<Rightarrow> if t = [] then Inr False else Inl AttributeError
      | PNone \<Rightarrow> Inl TypeError
      | PNum x \<Rightarrow> Inl TypeError)"

text \<open>\<^verbatim>\<open>preferences[key]\<close>: a \<^verbatim>\<open>KeyError\<close> when the key is absent.\<close>

definition pref :: "preferences \<Rightarrow> string \<Rightarrow> error + string list" where
  "pref preferences k = (case preferences k of None \<Rightarrow> Inl (KeyError k) | Some l \<Rightarrow> Inr l)"

text \<open>\<^verbatim>\<open>v in favorites\<close> on a list of strings: only a string can equal an element.\<close>

fun in_strings :: "pyval \<Rightarrow> string list \<Rightarrow> bool" where
  "in_strings (PStr s) l = (s \<in> set l)"
| "in_strings _ l = False"

text \<open>\<^verbatim>\<open>v + 0.2\<close>: defined on numbers only.\<close>

fun py_add :: "pyval \<Rightarrow> real \<Rightarrow> error + pyval" where
  "py_add (PNum x) y = Inr (PNum (x + y))"
| "py_add _ y = Inl TypeError"

text \<open>
  The recipes handed to \<^verbatim>\<open>filter_by_preferences\<close> are dict objects, which the loop
  updates in place (\<^verbatim>\<open>match_score\<close>, \<^verbatim>\<open>food_flags\<close>). The objects live in a store, and
  the list holds their addresses, so that the same object may occur twice in it.
\<close>

type_synonym store = "nat \<Rightarrow> pydict"

text \<open>
  One iteration of the loop on the object at address \<open>a\<close>: \<open>(False, h)\<close> for
  \<^verbatim>\<open>continue\<close>, \<open>(True, h')\<close> when the recipe is appended, \<open>h'\<close> being the store after
  the two assignments.
\<close>

definition filter_step ::
  "library \<Rightarrow> service \<Rightarrow> preferences \<Rightarrow> store \<Rightarrow> nat \<Rightarrow> error + (bool \<times> store)" where
  "filter_step lib svc preferences h a =
     (let recipe = h a in
      case pref preferences ''dietary_restrictions'' of
        Inl e \<Rightarrow> Inl e
      | Inr restrictions \<Rightarrow>
     (case any_in restrictions (dict_get recipe ''tags'' (PStrs [])) of
        Inl e \<Rightarrow> Inl e
      | Inr restricted \<Rightarrow>
          if restricted then Inr (False, h)
          else
     (case pref preferences ''allergies'' of
        Inl e \<Rightarrow> Inl e
      | Inr user_allergies \<Rightarrow>
     (case check_recipe_allergens lib recipe user_allergies of
        Inl e \<Rightarrow> Inl e
      | Inr allergic \<Rightarrow>
          if allergic then Inr (False, h)
          else
     (case check_food_flags svc recipe of
        Inl e \<Rightarrow> Inl e
      | Inr recipe_flags \<Rightarrow>
     (case pref preferences ''food_flags'' of
        Inl e \<Rightarrow> Inl e
      | Inr user_flags \<Rightarrow>
          if \<exists>flag \<in> set user_flags. flag \<in> set recipe_flags then Inr (False, h)
          else
     (case pref preferences ''favorite_cuisines'' of
        Inl e \<Rightarrow> Inl e
      | Inr favorites \<Rightarrow>
     (case (if in_strings (dict_get recipe ''cuisine'' PNone) favorites
            then (case py_add (dict_get recipe ''match_score'' (PNum 0)) (2 / 10) of
                    Inl e \<Rightarrow> Inl e
                  | Inr score \<Rightarrow> Inr (recipe(''match_score'' \<mapsto> score)))
            else Inr recipe) of
        Inl e \<Rightarrow> Inl e
      | Inr recipe1 \<Rightarrow>
          Inr (True, h(a := recipe1(''food_flags'' \<mapsto> PStrs recipe_flags)))))))))))"

fun filter_loop ::
  "library \<Rightarrow> service \<Rightarrow> preferences \<Rightarrow> store \<Rightarrow> nat list \<Rightarrow> error + (nat list \<times> store)" where
  "filter_loop lib svc preferences h [] = Inr ([], h)"
| "filter_loop lib svc preferences h (a # rest) =
     (case filter_step lib svc preferences h a of
        Inl e \<Rightarrow> Inl e
      | Inr (keep, h1) \<Rightarrow>
          (case filter_loop lib svc preferences h1 rest of
             Inl e \<Rightarrow> Inl e
           | Inr (filtered_recipes, h2) \<Rightarrow>
               Inr (if keep then a # filtered_recipes else filtered_recipes, h2)))"

text \<open>
  \<^verbatim>\<open>filter_by_preferences\<close>: the addresses of the retained objects, in the order they
  were appended, and the store after the loop.
\<close>

definition filter_by_preferences ::
  "library \<Rightarrow> service \<Rightarrow> store \<Rightarrow> nat list \<Rightarrow> preferences \<Rightarrow> error + (nat list \<times> store)" where
  "filter_by_preferences lib svc h recipes preferences =
     filter_loop lib svc preferences h recipes"


section \<open>Hybrid recommendations\<close>

text \<open>
  \<^verbatim>\<open>load_model\<close>: on the first call the embedding network (\<^verbatim>\<open>input_dim=100\<close>, default
  \<^verbatim>\<open>embedding_dim=128\<close>) is built and its weights are read from
  \<^verbatim>\<open>settings.MODEL_PATH\<close>. An exception ends the request; the state of the service
  object after an exception is not followed.
\<close>

definition load_model :: "library \<Rightarrow> service \<Rightarrow> error + service" where
  "load_model lib svc =
     (if model svc = None then
        (case torch_load lib of
           Some e \<Rightarrow> Inl e
         | None \<Rightarrow> Inr (svc\<lparr>model := Some \<lparr>input_dim = 100, embedding_dim = 128\<rparr>\<rparr>))
      else Inr svc)"

text \<open>\<^verbatim>\<open>xs[:n]\<close>: a negative \<open>n\<close> drops the last \<open>-n\<close> elements.\<close>

definition py_slice_to :: "int \<Rightarrow> 'a list \<Rightarrow> 'a list" where
  "py_slice_to n xs = (if 0 \<le> n then take (nat n) xs else take (length xs - nat (- n)) xs)"

text \<open>
  The loop of \<^verbatim>\<open>get_recommendations\<close> that fetches the recipe of every id and sets its
  \<^verbatim>\<open>match_score\<close> to 0.5; an id without a row is skipped.
\<close>

fun details_loop :: "database \<Rightarrow> int list \<Rightarrow> error + pydict list" where
  "details_loop db [] = Inr []"
| "details_loop db (recipe_id # rest) =
     (case global_name ''Recipe'' of
        Inl e \<Rightarrow> Inl e
      | Inr _ \<Rightarrow>
          (case details_loop db rest of
             Inl e \<Rightarrow> Inl e
           | Inr recommended_recipes \<Rightarrow>
               (case first_where (\<lambda>r. r_id r = recipe_id) (recipes_table db) of
                  None \<Rightarrow> Inr recommended_recipes
                | Some recipe \<Rightarrow>
                    Inr ((r_dict recipe)(''match_score'' \<mapsto> PNum (5 / 10)) # recommended_recipes))))"

text \<open>
  The sort key \<^verbatim>\<open>x['match_score']\<close> of every retained recipe. At this point every
  score is a number (0.5, or 0.7 after the boost).
\<close>

fun score_keys :: "store \<Rightarrow> nat list \<Rightarrow> error + (nat \<times> real) list" where
  "score_keys h [] = Inr []"
| "score_keys h (a # rest) =
     (case h a ''match_score'' of
        None \<Rightarrow> Inl (KeyError ''match_score'')
      | Some (PNum x) \<Rightarrow>
          (case score_keys h rest of Inl e \<Rightarrow> Inl e | Inr ks \<Rightarrow> Inr ((a, x) # ks))
      | Some _ \<Rightarrow> Inl TypeError)"

text \<open>
  \<^verbatim>\<open>get_recommendations\<close>. The fetched dicts are distinct objects (the ids come out of
  a set), stored at the addresses \<open>0, 1, ...\<close>. Note that the source passes
  \<^verbatim>\<open>user_id\<close> to \<^verbatim>\<open>content_based_filtering\<close> as the recipe id.
\<close>

definition get_recommendations ::
  "library \<Rightarrow> service \<Rightarrow> int \<Rightarrow> database \<Rightarrow> int \<Rightarrow> error + (pydict list \<times> service)" where
  "get_recommendations lib svc user_id db n_recommendations =
     (case load_model lib svc of
        Inl e \<Rightarrow> Inl e
      | Inr svc1 \<Rightarrow>
     (case get_user_preferences lib user_id db of
        Inl e \<Rightarrow> Inl e
      | Inr user_prefs \<Rightarrow>
     (case collaborative_filtering user_id db of
        Inl e \<Rightarrow> Inl e
      | Inr cf_recommendations \<Rightarrow>
     (case content_based_filtering lib svc1 user_id db of
        Inl e \<Rightarrow> Inl e
      | Inr (cb_recommendations, svc2) \<Rightarrow>
     (let combined_recommendations = set_to_list lib (cf_recommendations @ cb_recommendations) in
      case details_loop db (py_slice_to n_recommendations combined_recommendations) of
        Inl e \<Rightarrow> Inl e
      | Inr dicts \<Rightarrow>
     (let h0 = (\<lambda>a. if a < length dicts then dicts ! a else Map.empty) in
      case filter_by_preferences lib svc2 h0 [0..<length dicts] user_prefs of
        Inl e \<Rightarrow> Inl e
      | Inr (kept, h1) \<Rightarrow>
     (case score_keys h1 kept of
        Inl e \<Rightarrow> Inl e
      | Inr keyed \<Rightarrow>
          Inr (map (\<lambda>(a, k). h1 a) (py_slice_to n_recommendations (sort_desc snd keyed)),
               svc2))))))))"

text \<open>\<^verbatim>\<open>train_model\<close>: the body is \<^verbatim>\<open>pass\<close>; the call returns \<^verbatim>\<open>None\<close>.\<close>

definition train_model :: "service \<Rightarrow> pydict list \<Rightarrow> error + (unit \<times> service)" where
  "train_model svc training_data = Inr ((), svc)"

section \<open>The recommendation endpoints\<close>

text \<open>
  A handler either returns its value or fails: with the \<^verbatim>\<open>HTTPException\<close> it raises
  (status code and detail), or with an exception that leaves the handler uncaught. The
  module keeps one service object, which the handlers use and which is returned with
  the value.
\<close>

datatype failure = HTTPException nat string | Uncaught error

text \<open>
  The user \<^verbatim>\<open>get_current_user\<close> resolves (that dependency is not among the sources):
  its id, and its \<^verbatim>\<open>is_admin\<close> attribute, \<open>None\<close> when the object has none (the
  \<^verbatim>\<open>User\<close> model declares no such column).
\<close>

record current_user =
  cu_id :: int
  is_admin :: "bool option"

definition get_personalized_recommendations ::
  "library \<Rightarrow> service \<Rightarrow> int \<Rightarrow> current_user \<Rightarrow> database
     \<Rightarrow> failure + (pydict list \<times> service)" where
  "get_personalized_recommendations lib svc n_recommendations current_user db =
     (case get_recommendations lib svc (cu_id current_user) db n_recommendations of
        Inr (recommendations, svc1) \<Rightarrow> Inr (recommendations, svc1)
      | Inl e \<Rightarrow>
          Inl (HTTPException 500 (''Error getting recommendations: '' @ str_exc lib e)))"

definition get_similar_recipes ::
  "library \<Rightarrow> service \<Rightarrow> int \<Rightarrow> int \<Rightarrow> database \<Rightarrow> failure + (int list \<times> service)" where
  "get_similar_recipes lib svc recipe_id n_recommendations db =
     (case content_based_filtering lib svc recipe_id db of
        Inr (recommendations, svc1) \<Rightarrow> Inr (py_slice_to n_recommendations recommendations, svc1)
      | Inl e \<Rightarrow>
          Inl (HTTPException 500 (''Error getting similar recipes: '' @ str_exc lib e)))"

definition train_recommendation_model ::
  "library \<Rightarrow> service \<Rightarrow> current_user \<Rightarrow> database
     \<Rightarrow> failure + ((string \<times> string) list \<times> service)" where
  "train_recommendation_model lib svc current_user db =
     (case is_admin current_user of
        None \<Rightarrow> Inl (Uncaught AttributeError)
      | Some admin \<Rightarrow>
          if \<not> admin then Inl (HTTPException 403 ''Not enough permissions'')
          else
            (let training_data = [] in
             case train_model svc training_data of
               Inr (u, svc1) \<Rightarrow> Inr ([(''message'', ''Model trained successfully'')], svc1)
             | Inl e \<Rightarrow> Inl (HTTPException 500 (''Error training model: '' @ str_exc lib e))))"

section \<open>The training loop\<close>

text \<open>
  \<^verbatim>\<open>ModelTrainer\<close> (\<^verbatim>\<open>scripts/training/train_model.py\<close>). The losses an epoch
  produces depend on the network and the data; here they are given as a function of the
  epoch index: \<open>run epoch = (train_loss, val_loss)\<close>. The trainer's state is its two
  lists of losses, the best validation loss (\<open>None\<close> for the initial
  \<^verbatim>\<open>float('inf')\<close>), the files written by \<^verbatim>\<open>torch.save\<close> and the lines logged.
\<close>

datatype checkpoint_file = BestModel nat real | EpochCheckpoint nat real

datatype log_line = LogEpoch nat int | LogLosses real real | LogEarlyStopping nat

record trainer =
  train_losses :: "real list"
  val_losses :: "real list"
  best_val_loss :: "real option"
  saved :: "checkpoint_file list"
  logged :: "log_line list"

definition init_trainer :: trainer where
  "init_trainer =
     \<lparr>train_losses = [], val_losses = [], best_val_loss = None, saved = [], logged = []\<rparr>"

text \<open>\<^verbatim>\<open>val_loss < self.best_val_loss\<close>\<close>

definition below_best :: "real \<Rightarrow> real option \<Rightarrow> bool" where
  "below_best val_loss best = (case best of None \<Rightarrow> True | Some b \<Rightarrow> val_loss < b)"

definition save_checkpoint :: "trainer \<Rightarrow> nat \<Rightarrow> real \<Rightarrow> trainer" where
  "save_checkpoint t epoch val_loss =
     (let t1 = (if below_best val_loss (best_val_loss t)
                then t\<lparr>best_val_loss := Some val_loss,
                       saved := saved t @ [BestModel epoch val_loss]\<rparr>
                else t)
      in t1\<lparr>saved := saved t1 @ [EpochCheckpoint epoch val_loss]\<rparr>)"

text \<open>
  The \<^verbatim>\<open>for epoch in range(num_epochs)\<close> loop of \<^verbatim>\<open>train\<close>, with the number of
  epochs still to run, the epoch index and \<^verbatim>\<open>patience_counter\<close>.
  \<^verbatim>\<open>(epoch + 1) % save_interval\<close> raises \<^verbatim>\<open>ZeroDivisionError\<close> for a zero interval.
\<close>

fun train_loop ::
  "(nat \<Rightarrow> real \<times> real) \<Rightarrow> int \<Rightarrow> int \<Rightarrow> int \<Rightarrow> nat \<Rightarrow> nat \<Rightarrow> int \<Rightarrow> trainer
     \<Rightarrow> error + trainer" where
  "train_loop run num_epochs save_interval patience 0 epoch patience_counter t = Inr t"
| "train_loop run num_epochs save_interval patience (Suc k) epoch patience_counter t =
     (let t1 = t\<lparr>logged := logged t @ [LogEpoch (epoch + 1) num_epochs]\<rparr>;
          train_loss = fst (run epoch);
          val_loss = snd (run epoch);
          t2 = t1\<lparr>logged := logged t1 @ [LogLosses train_loss val_loss]\<rparr>;
          t3 = t2\<lparr>train_losses := train_losses t2 @ [train_loss],
                  val_losses := val_losses t2 @ [val_loss]\<rparr>
      in if save_interval = 0 then Inl ZeroDivisionError
         else
           (let t4 = (if (int epoch + 1) mod save_interval = 0
                      then save_checkpoint t3 epoch val_loss else t3)
            in if below_best val_loss (best_val_loss t4)
               then train_loop run num_epochs save_interval patience k (Suc epoch) 0
                      (save_checkpoint (t4\<lparr>best_val_loss := Some val_loss\<rparr>) epoch val_loss)
               else if patience_counter + 1 \<ge> patience
               then Inr (t4\<lparr>logged := logged t4 @ [LogEarlyStopping (epoch + 1)]\<rparr>)
               else train_loop run num_epochs save_interval patience k (Suc epoch)
                      (patience_counter + 1) t4))"

definition train ::
  "(nat \<Rightarrow> real \<times> real) \<Rightarrow> trainer \<Rightarrow> int \<Rightarrow> int \<Rightarrow> int \<Rightarrow> error + trainer" where
  "train run t num_epochs save_interval early_stopping_patience =
     train_loop run num_epochs save_interval early_stopping_patience (nat num_epochs) 0 0 t"

text \<open>
  Early stopping as the documentation states it, on the validation losses alone: the
  number of epochs run when training stops at the first epoch by which the loss has
  not gone below the best loss seen so far for \<open>patience\<close> consecutive epochs, and
  after \<open>num_epochs\<close> epochs at the latest.
\<close>

fun early_stopping_epochs ::
  "(nat \<Rightarrow> real) \<Rightarrow> int \<Rightarrow> nat \<Rightarrow> nat \<Rightarrow> real option \<Rightarrow> int \<Rightarrow> nat" where
  "early_stopping_epochs val patience 0 epoch best stale = epoch"
| "early_stopping_epochs val patience (Suc k) epoch best stale =
     (if below_best (val epoch) best
      then early_stopping_epochs val patience k (Suc epoch) (Some (val epoch)) 0
      else if stale + 1 \<ge> patience then Suc epoch
      else early_stopping_epochs val patience k (Suc epoch) best (stale + 1))"

section \<open>Sample data\<close>

text \<open>
  A library behaviour used to evaluate the functions on examples: \<open>json_loads\<close> on the
  three texts \<^verbatim>\<open>[]\<close>, \<^verbatim>\<open>["nuts"]\<close> and \<^verbatim>\<open>["gluten"]\<close>, rows of numbers read as they are,
  a set listed without repetitions in the order of first occurrence, a weights file
  that loads, and the message of a \<^verbatim>\<open>NameError\<close>.
\<close>

definition json_array1 :: "string \<Rightarrow> string" where
  "json_array1 s = ''['' @ [CHR 0x22] @ s @ [CHR 0x22] @ '']''"

definition sample_json_loads :: "string \<Rightarrow> error + string list" where
  "sample_json_loads s =
     (if s = ''[]'' then Inr []
      else if s = json_array1 ''nuts'' then Inr [''nuts'']
      else if s = json_array1 ''gluten'' then Inr [''gluten'']
      else Inl JSONDecodeError)"

fun sample_float_row :: "pyval list \<Rightarrow> error + real list" where
  "sample_float_row [] = Inr []"
| "sample_float_row (PNum x # vs) =
     (case sample_float_row vs of Inl e \<Rightarrow> Inl e | Inr xs \<Rightarrow> Inr (x # xs))"
| "sample_float_row (v # vs) = Inl ConversionError"

fun sample_str_exc :: "error \<Rightarrow> string" where
  "sample_str_exc (NameError n) = ''name '' @ [CHR 0x27] @ n @ [CHR 0x27] @ '' is not defined''"
| "sample_str_exc (KeyError k) = [CHR 0x27] @ k @ [CHR 0x27]"
| "sample_str_exc e = []"

definition sample_library :: library where
  "sample_library =
     \<lparr>json_loads = sample_json_loads, np_float_row = sample_float_row,
      set_to_list = remdups, torch_load = None, str_exc = sample_str_exc\<rparr>"

definition sample_database :: database where
  "sample_database =
     \<lparr>users_table = [],
      recipes_table =
        [\<lparr>r_id = 1, r_dict = [''calories'' \<mapsto> PNum 600, ''protein'' \<mapsto> PNum 20]\<rparr>,
         \<lparr>r_id = 2, r_dict = [''calories'' \<mapsto> PNum 400, ''fat'' \<mapsto> PNum 10]\<rparr>,
         \<lparr>r_id = 3, r_dict = [''calories'' \<mapsto> PNum 300, ''servings'' \<mapsto> PNum 4]\<rparr>],
      interactions_table = []\<rparr>"

definition sample_recipe :: pydict where
  "sample_recipe =
     [''sodium'' \<mapsto> PNum 600, ''fat'' \<mapsto> PNum 20, ''calories'' \<mapsto> PNum 501,
      ''protein'' \<mapsto> PNum 10]"

section \<open>Numeric recipes\<close>




section \<open>A sample training run\<close>

text \<open>
  A run with the settings of \<^verbatim>\<open>main()\<close> (100 epochs, a checkpoint every 5 epochs,
  patience 10) whose validation loss is 10, 11, 11, 11, 5, 6, 6, 6, 6, 4 and then 5 for
  good: it improves at the epochs of index 0, 4 and 9.
\<close>

definition sample_val_loss :: "nat \<Rightarrow> real" where
  "sample_val_loss i =
     (if i = 0 then 10 else if i < 4 then 11 else if i = 4 then 5
      else if i < 9 then 6 else if i = 9 then 4 else 5)"

definition sample_run :: "nat \<Rightarrow> real \<times> real" where
  "sample_run i = (sample_val_loss i, sample_val_loss i)"

section \<open>What the filter is meant to do\<close>

text \<open>
  The vocabulary of the filtering rule: the tags of a recipe, its ingredient rows, the
  decoded allergens of an ingredient, the flags \<^verbatim>\<open>check_food_flags\<close> computes, and
  the lists of the user's preferences.
\<close>

definition recipe_tags :: "pydict \<Rightarrow> string list" where
  "recipe_tags d = (case d ''tags'' of Some (PStrs l) \<Rightarrow> l | _ \<Rightarrow> [])"

definition recipe_ingredients :: "pydict \<Rightarrow> ingredient list" where
  "recipe_ingredients d = (case d ''ingredients'' of Some (PIngredients l) \<Rightarrow> l | _ \<Rightarrow> [])"

definition ingredient_allergens :: "library \<Rightarrow> ingredient \<Rightarrow> string list" where
  "ingredient_allergens lib ing =
     (case loads_or_empty lib (common_allergens ing) of Inr l \<Rightarrow> l | Inl e \<Rightarrow> [])"

definition recipe_flags :: "service \<Rightarrow> pydict \<Rightarrow> string list" where
  "recipe_flags svc d = (case check_food_flags svc d of Inr l \<Rightarrow> l | Inl e \<Rightarrow> [])"

definition pref_list :: "preferences \<Rightarrow> string \<Rightarrow> string list" where
  "pref_list preferences k = (case preferences k of Some l \<Rightarrow> l | None \<Rightarrow> [])"

text \<open>
  A recipe is excluded when one of its tags is a dietary restriction of the user, or an
  allergen of one of its ingredients is an allergy of the user, or one of its food flags
  is a food flag of the user.
\<close>

definition excluded :: "library \<Rightarrow> service \<Rightarrow> preferences \<Rightarrow> pydict \<Rightarrow> bool" where
  "excluded lib svc preferences d =
     ((\<exists>t \<in> set (recipe_tags d). t \<in> set (pref_list preferences ''dietary_restrictions'')) \<or>
      (\<exists>ing \<in> set (recipe_ingredients d). \<exists>al \<in> set (ingredient_allergens lib ing).
          al \<in> set (pref_list preferences ''allergies'')) \<or>
      (\<exists>f \<in> set (recipe_flags svc d). f \<in> set (pref_list preferences ''food_flags'')))"

text \<open>The recipe's cuisine is one of the user's favorite cuisines.\<close>

definition favorite :: "preferences \<Rightarrow> pydict \<Rightarrow> bool" where
  "favorite preferences d =
     in_strings (dict_get d ''cuisine'' PNone) (pref_list preferences ''favorite_cuisines'')"

text \<open>
  The inputs the rule is about: preferences with their four lists, and recipe dicts
  whose \<^verbatim>\<open>tags\<close> (where present) is a list of strings, whose \<^verbatim>\<open>ingredients\<close> (where
  present) is a list of rows with decodable allergens, and whose nutritional fields
  and \<^verbatim>\<open>match_score\<close> (where present) are numbers.
\<close>

definition prefs_complete :: "preferences \<Rightarrow> bool" where
  "prefs_complete preferences =
     (preferences ''dietary_restrictions'' \<noteq> None \<and> preferences ''allergies'' \<noteq> None \<and>
      preferences ''food_flags'' \<noteq> None \<and> preferences ''favorite_cuisines'' \<noteq> None)"

definition decodable :: "library \<Rightarrow> ingredient \<Rightarrow> bool" where
  "decodable lib ing =
     (case loads_or_empty lib (common_allergens ing) of Inr l \<Rightarrow> True | Inl e \<Rightarrow> False)"

definition recipe_ok :: "library \<Rightarrow> pydict \<Rightarrow> bool" where
  "recipe_ok lib d =
     ((case d ''tags'' of None \<Rightarrow> True | Some (PStrs l) \<Rightarrow> True | Some _ \<Rightarrow> False) \<and>
      (case d ''ingredients'' of
         None \<Rightarrow> True
       | Some (PIngredients l) \<Rightarrow> list_all (decodable lib) l
       | Some _ \<Rightarrow> False) \<and>
      nutrition_numeric d \<and> numeric d ''match_score'')"

text \<open>
  The dict of a retained recipe after its iteration: the score raised by 0.2 for a
  favorite cuisine, and \<^verbatim>\<open>food_flags\<close> set to the computed flags.
\<close>

definition retained :: "preferences \<Rightarrow> pydict \<Rightarrow> pydict" where
  "retained preferences d =
     (if favorite preferences d
      then d(''match_score'' \<mapsto> PNum (num_field d ''match_score'' + 2 / 10),
             ''food_flags'' \<mapsto> PStrs (expected_flags d))
      else d(''food_flags'' \<mapsto> PStrs (expected_flags d)))"

section \<open>A sample store\<close>

text \<open>
  Preferences and a store of five recipe dicts: an Italian recipe with a score of 0.5,
  a recipe tagged \<^verbatim>\<open>vegan\<close>, one with an ingredient that lists \<^verbatim>\<open>nuts\<close>, one with
  600 mg of sodium, and a Thai recipe without a score.
\<close>

definition sample_preferences :: preferences where
  "sample_preferences =
     [''dietary_restrictions'' \<mapsto> [''vegan''], ''favorite_cuisines'' \<mapsto> [''italian''],
      ''allergies'' \<mapsto> [''nuts''], ''food_flags'' \<mapsto> [''high_sodium'']]"

definition sample_store :: store where
  "sample_store a =
     (if a = 0 then
        [''cuisine'' \<mapsto> PStr ''italian'', ''protein'' \<mapsto> PNum 20,
         ''match_score'' \<mapsto> PNum (5 / 10)]
      else if a = 1 then [''tags'' \<mapsto> PStrs [''vegan''], ''protein'' \<mapsto> PNum 20]
      else if a = 2 then
        [''ingredients'' \<mapsto>
           PIngredients [\<lparr>name = ''walnut'', common_allergens = Some (json_array1 ''nuts'')\<rparr>],
         ''protein'' \<mapsto> PNum 20]
      else if a = 3 then [''sodium'' \<mapsto> PNum 600, ''protein'' \<mapsto> PNum 20]
      else if a = 4 then [''cuisine'' \<mapsto> PStr ''thai'', ''protein'' \<mapsto> PNum 20]
      else Map.empty)"


text \<open>What a finished run shows: epochs run, last line logged, best validation loss.\<close>

definition training_summary :: "error + trainer \<Rightarrow> error + (nat \<times> log_line \<times> real option)" where
  "training_summary result =
     map_sum id (\<lambda>t. (length (val_losses t), last (logged t), best_val_loss t)) result"

section \<open>Properties\<close>

lemma flag_step_gt:
  assumes "numeric d field" and "food_flags svc flag = Some spec"
  shows "flag_step svc d field flag py_gt fl =
           Inr (if num_field d field > threshold spec then fl @ [flag] else fl)"
  using assms
  by (auto simp: flag_step_def dict_get_def numeric_def num_field_def
           split: option.splits pyval.splits)

lemma flag_step_lt:
  assumes "numeric d field" and "food_flags svc flag = Some spec"
  shows "flag_step svc d field flag py_lt fl =
           Inr (if num_field d field < threshold spec then fl @ [flag] else fl)"
  using assms
  by (auto simp: flag_step_def dict_get_def numeric_def num_field_def
           split: option.splits pyval.splits)

lemma check_food_flags_numeric:
  assumes "nutrition_numeric d" and "food_flags svc = init_food_flags"
  shows "check_food_flags svc d = Inr (expected_flags d)"
proof -
  have n: "numeric d ''sodium''" "numeric d ''sugar''" "numeric d ''fat''"
    "numeric d ''calories''" "numeric d ''carbs''" "numeric d ''protein''"
    using assms(1) by (simp_all add: nutrition_numeric_def)
  have t: "food_flags svc ''high_sodium'' = Some \<lparr>threshold = 500, unit = ''mg''\<rparr>"
    "food_flags svc ''high_sugar'' = Some \<lparr>threshold = 25, unit = ''g''\<rparr>"
    "food_flags svc ''high_fat'' = Some \<lparr>threshold = 20, unit = ''g''\<rparr>"
    "food_flags svc ''high_calories'' = Some \<lparr>threshold = 500, unit = ''kcal''\<rparr>"
    "food_flags svc ''high_carbs'' = Some \<lparr>threshold = 50, unit = ''g''\<rparr>"
    "food_flags svc ''low_protein'' = Some \<lparr>threshold = 10, unit = ''g''\<rparr>"
    using assms(2) by (simp_all add: init_food_flags_def)
  show ?thesis
    unfolding check_food_flags_def expected_flags_def
    by (simp add: flag_step_gt [OF n(1) t(1)] flag_step_gt [OF n(2) t(2)]
        flag_step_gt [OF n(3) t(3)] flag_step_gt [OF n(4) t(4)]
        flag_step_gt [OF n(5) t(5)] flag_step_lt [OF n(6) t(6)])
qed


subsection \<open>C4: the food flags are the thresholds of the table\<close>

text \<open>
  Claim C4. For a recipe dict whose nutritional fields are numbers where present, and a
  service whose threshold table is the one \<^verbatim>\<open>__init__\<close> builds,
  \<^verbatim>\<open>check_food_flags\<close> returns exactly the flags whose threshold condition holds:
  \<^verbatim>\<open>high_sodium\<close> iff sodium > 500, \<^verbatim>\<open>high_sugar\<close> iff sugar > 25, \<^verbatim>\<open>high_fat\<close> iff
  fat > 20, \<^verbatim>\<open>high_calories\<close> iff calories > 500, \<^verbatim>\<open>high_carbs\<close> iff carbs > 50 (all
  strict) and \<^verbatim>\<open>low_protein\<close> iff protein < 10, a missing field counting as 0, and no
  other flag.
\<close>

theorem check_food_flags_thresholds:
  assumes "nutrition_numeric d" and "food_flags svc = init_food_flags"
  shows "\<exists>flags. check_food_flags svc d = Inr flags \<and>
           (''high_sodium'' \<in> set flags \<longleftrightarrow> num_field d ''sodium'' > 500) \<and>
           (''high_sugar'' \<in> set flags \<longleftrightarrow> num_field d ''sugar'' > 25) \<and>
           (''high_fat'' \<in> set flags \<longleftrightarrow> num_field d ''fat'' > 20) \<and>
           (''high_calories'' \<in> set flags \<longleftrightarrow> num_field d ''calories'' > 500) \<and>
           (''high_carbs'' \<in> set flags \<longleftrightarrow> num_field d ''carbs'' > 50) \<and>
           (''low_protein'' \<in> set flags \<longleftrightarrow> num_field d ''protein'' < 10) \<and>
           set flags \<subseteq> {''high_sodium'', ''high_sugar'', ''high_fat'', ''high_calories'',
                        ''high_carbs'', ''low_protein''} \<and>
           distinct flags"
proof -
  have "check_food_flags svc d = Inr (expected_flags d)"
    using assms by (rule check_food_flags_numeric)
  moreover have "''high_sodium'' \<in> set (expected_flags d) \<longleftrightarrow> num_field d ''sodium'' > 500"
    by (simp add: expected_flags_def)
  moreover have "''high_sugar'' \<in> set (expected_flags d) \<longleftrightarrow> num_field d ''sugar'' > 25"
    by (simp add: expected_flags_def)
  moreover have "''high_fat'' \<in> set (expected_flags d) \<longleftrightarrow> num_field d ''fat'' > 20"
    by (simp add: expected_flags_def)
  moreover have "''high_calories'' \<in> set (expected_flags d) \<longleftrightarrow> num_field d ''calories'' > 500"
    by (simp add: expected_flags_def)
  moreover have "''high_carbs'' \<in> set (expected_flags d) \<longleftrightarrow> num_field d ''carbs'' > 50"
    by (simp add: expected_flags_def)
  moreover have "''low_protein'' \<in> set (expected_flags d) \<longleftrightarrow> num_field d ''protein'' < 10"
    by (simp add: expected_flags_def)
  moreover have "set (expected_flags d) \<subseteq> {''high_sodium'', ''high_sugar'', ''high_fat'',
      ''high_calories'', ''high_carbs'', ''low_protein''}"
    by (auto simp: expected_flags_def split: if_splits)
  moreover have "distinct (expected_flags d)"
    by (simp add: expected_flags_def)
  ultimately show ?thesis by blast
qed

lemma sample_recipe_numeric: "nutrition_numeric sample_recipe"
  by (simp add: nutrition_numeric_def numeric_def sample_recipe_def)

theorem check_food_flags_thresholds_witness:
  "nutrition_numeric sample_recipe \<and>
   food_flags (init_service ''cpu'') = init_food_flags \<and>
   (\<exists>flags. check_food_flags (init_service ''cpu'') sample_recipe = Inr flags \<and>
      ''high_sodium'' \<in> set flags \<and> ''high_fat'' \<notin> set flags \<and>
      ''high_calories'' \<in> set flags \<and> ''low_protein'' \<notin> set flags)"
proof -
  have t: "food_flags (init_service ''cpu'') = init_food_flags"
    by (simp add: init_service_def)
  obtain flags where f: "check_food_flags (init_service ''cpu'') sample_recipe = Inr flags"
    and 1: "''high_sodium'' \<in> set flags \<longleftrightarrow> num_field sample_recipe ''sodium'' > 500"
    and 2: "''high_fat'' \<in> set flags \<longleftrightarrow> num_field sample_recipe ''fat'' > 20"
    and 3: "''high_calories'' \<in> set flags \<longleftrightarrow> num_field sample_recipe ''calories'' > 500"
    and 4: "''low_protein'' \<in> set flags \<longleftrightarrow> num_field sample_recipe ''protein'' < 10"
    using check_food_flags_thresholds [OF sample_recipe_numeric t] by blast
  have "''high_sodium'' \<in> set flags" "''high_fat'' \<notin> set flags"
    "''high_calories'' \<in> set flags" "''low_protein'' \<notin> set flags"
    using 1 2 3 4 by (simp_all add: num_field_def sample_recipe_def)
  with f sample_recipe_numeric t show ?thesis by blast
qed

subsection \<open>The model classes are not bound in the service module\<close>

lemma global_name_unbound:
  "global_name ''User'' = Inl (NameError ''User'')"
  "global_name ''Recipe'' = Inl (NameError ''Recipe'')"
  "global_name ''UserRecipeInteraction'' = Inl (NameError ''UserRecipeInteraction'')"
  by (simp_all add: global_name_def module_globals_def)

text \<open>
  Claim C1 says that \<^verbatim>\<open>content_based_filtering\<close> returns the ids of all other recipes,
  ranked by cosine similarity. As written, every call raises \<^verbatim>\<open>NameError\<close> when it
  reads the global \<^verbatim>\<open>Recipe\<close>, which the module never imports.
\<close>

theorem content_based_filtering_raises:
  "content_based_filtering lib svc recipe_id db = Inl (NameError ''Recipe'')"
  by (simp add: content_based_filtering_def global_name_unbound)

text \<open>
  Claim C3 says that \<^verbatim>\<open>collaborative_filtering\<close> returns the empty list because its
  two helpers do. The helpers do return the empty list, but every call of
  \<^verbatim>\<open>collaborative_filtering\<close> raises \<^verbatim>\<open>NameError\<close> on the global
  \<^verbatim>\<open>UserRecipeInteraction\<close> before it reaches them.
\<close>

theorem collaborative_filtering_raises:
  "collaborative_filtering user_id db = Inl (NameError ''UserRecipeInteraction'') \<and>
   find_similar_users user_id db = [] \<and>
   get_recipes_from_similar_users similar_users db = []"
  by (simp add: collaborative_filtering_def global_name_unbound find_similar_users_def
      get_recipes_from_similar_users_def)

text \<open>
  Claim C10 says that \<^verbatim>\<open>get_user_preferences\<close> returns four empty lists for an
  unknown user instead of failing. As written, every call raises \<^verbatim>\<open>NameError\<close> on the
  global \<^verbatim>\<open>User\<close>, whether the user exists or not.
\<close>

theorem get_user_preferences_raises:
  "get_user_preferences lib user_id db = Inl (NameError ''User'')"
  by (simp add: get_user_preferences_def global_name_unbound)

text \<open>
  Behind the name lookup, an id that matches no user does give the four empty lists.
\<close>

lemma unknown_user_empty_preferences:
  assumes "\<forall>u \<in> set (users_table db). u_id u \<noteq> user_id"
  shows "get_user_preferences_body lib user_id db = Inr empty_preferences"
    and "empty_preferences ''dietary_restrictions'' = Some []"
    and "empty_preferences ''favorite_cuisines'' = Some []"
    and "empty_preferences ''allergies'' = Some []"
    and "empty_preferences ''food_flags'' = Some []"
proof -
  have "first_where (\<lambda>u. u_id u = user_id) (users_table db) = None"
    using assms by (simp add: first_where_def find_None_iff)
  then show "get_user_preferences_body lib user_id db = Inr empty_preferences"
    by (simp add: get_user_preferences_body_def)
qed (simp_all add: empty_preferences_def)

subsection \<open>C7: training is a no-op\<close>

text \<open>
  Claim C7. \<^verbatim>\<open>train_model\<close> returns \<^verbatim>\<open>None\<close> and leaves the service (device, model,
  scaler and food-flag thresholds) as it was, for every list of training data; and for
  a user whose \<^verbatim>\<open>is_admin\<close> is true, \<^verbatim>\<open>POST /train\<close> answers
  \<^verbatim>\<open>{"message": "Model trained successfully"}\<close> with the service unchanged.
\<close>

theorem train_model_noop:
  assumes "is_admin user = Some True"
  shows "train_model svc training_data = Inr ((), svc) \<and>
         train_recommendation_model lib svc user db =
           Inr ([(''message'', ''Model trained successfully'')], svc)"
  using assms by (simp add: train_model_def train_recommendation_model_def)

theorem train_model_noop_witness:
  "is_admin \<lparr>cu_id = 1, is_admin = Some True\<rparr> = Some True \<and>
   train_model (init_service ''cpu'') [sample_recipe] = Inr ((), init_service ''cpu'') \<and>
   train_recommendation_model sample_library (init_service ''cpu'')
       \<lparr>cu_id = 1, is_admin = Some True\<rparr> sample_database =
     Inr ([(''message'', ''Model trained successfully'')], init_service ''cpu'')"
  using train_model_noop [of "\<lparr>cu_id = 1, is_admin = Some True\<rparr>" "init_service ''cpu''"
      "[sample_recipe]" sample_library sample_database]
  by simp

subsection \<open>C6: the endpoints turn every exception into a 500\<close>

text \<open>
  Claim C6. In \<^verbatim>\<open>GET /personalized\<close> and \<^verbatim>\<open>GET /similar/{recipe_id}\<close>, whenever the
  computation raises an exception \<open>e\<close>, the handler fails with status 500 and a detail
  made of its fixed prefix followed by \<^verbatim>\<open>str(e)\<close>; and any failure of these handlers
  is of that form, for the exception the computation raised.
\<close>

theorem endpoints_exception_to_500:
  "(\<forall>e. get_recommendations lib svc (cu_id user) db n = Inl e \<longrightarrow>
      get_personalized_recommendations lib svc n user db =
        Inl (HTTPException 500 (''Error getting recommendations: '' @ str_exc lib e))) \<and>
   (\<forall>e. content_based_filtering lib svc recipe_id db = Inl e \<longrightarrow>
      get_similar_recipes lib svc recipe_id n db =
        Inl (HTTPException 500 (''Error getting similar recipes: '' @ str_exc lib e))) \<and>
   (\<forall>f. get_personalized_recommendations lib svc n user db = Inl f \<longrightarrow>
      (\<exists>e. get_recommendations lib svc (cu_id user) db n = Inl e \<and>
           f = HTTPException 500 (''Error getting recommendations: '' @ str_exc lib e))) \<and>
   (\<forall>f. get_similar_recipes lib svc recipe_id n db = Inl f \<longrightarrow>
      (\<exists>e. content_based_filtering lib svc recipe_id db = Inl e \<and>
           f = HTTPException 500 (''Error getting similar recipes: '' @ str_exc lib e)))"
  by (auto simp: get_personalized_recommendations_def get_similar_recipes_def
      split: sum.splits)

lemma get_user_preferences_unbound:
  "get_user_preferences lib user_id db = Inl (NameError ''User'')"
  by (simp add: get_user_preferences_def global_name_unbound)

lemma get_recommendations_fails:
  "get_recommendations lib svc user_id db n =
     (case load_model lib svc of Inl e \<Rightarrow> Inl e | Inr svc1 \<Rightarrow> Inl (NameError ''User''))"
  unfolding get_recommendations_def get_user_preferences_unbound
  by (simp only: sum.case)

text \<open>
  As the module stands, both computations always raise, so both endpoints always answer
  with status 500.
\<close>

lemma get_similar_recipes_always_500:
  "get_similar_recipes lib svc recipe_id n db =
     Inl (HTTPException 500
           (''Error getting similar recipes: '' @ str_exc lib (NameError ''Recipe'')))"
  by (simp add: get_similar_recipes_def content_based_filtering_def global_name_unbound)

lemma get_personalized_recommendations_always_500:
  "\<exists>e. get_personalized_recommendations lib svc n user db =
     Inl (HTTPException 500 (''Error getting recommendations: '' @ str_exc lib e))"
  unfolding get_personalized_recommendations_def get_recommendations_fails
  by (cases "load_model lib svc") auto

lemma sample_load_model:
  "load_model sample_library (init_service ''cpu'') =
     Inr ((init_service ''cpu'')\<lparr>model := Some \<lparr>input_dim = 100, embedding_dim = 128\<rparr>\<rparr>)"
  by (simp add: load_model_def init_service_def sample_library_def)

lemma sample_get_recommendations:
  "get_recommendations sample_library (init_service ''cpu'') 7 sample_database 10 =
     Inl (NameError ''User'')"
  by (simp only: get_recommendations_fails sample_load_model sum.case)


theorem endpoints_exception_to_500_witness:
  "get_recommendations sample_library (init_service ''cpu'') 7 sample_database 10 =
     Inl (NameError ''User'') \<and>
   get_personalized_recommendations sample_library (init_service ''cpu'') 10
       \<lparr>cu_id = 7, is_admin = None\<rparr> sample_database =
     Inl (HTTPException 500
           (''Error getting recommendations: '' @ sample_str_exc (NameError ''User''))) \<and>
   content_based_filtering sample_library (init_service ''cpu'') 1 sample_database =
     Inl (NameError ''Recipe'') \<and>
   get_similar_recipes sample_library (init_service ''cpu'') 1 10 sample_database =
     Inl (HTTPException 500
           (''Error getting similar recipes: '' @ sample_str_exc (NameError ''Recipe'')))"
proof -
  have s: "str_exc sample_library = sample_str_exc"
    by (simp add: sample_library_def)
  have c: "content_based_filtering sample_library (init_service ''cpu'') 1 sample_database =
      Inl (NameError ''Recipe'')"
    by (simp add: content_based_filtering_def global_name_unbound)
  have g: "get_recommendations sample_library (init_service ''cpu'')
      (cu_id \<lparr>cu_id = 7, is_admin = None\<rparr>) sample_database 10 = Inl (NameError ''User'')"
    using sample_get_recommendations by simp
  have t: "(\<forall>e. get_recommendations sample_library (init_service ''cpu'')
        (cu_id \<lparr>cu_id = 7, is_admin = None\<rparr>) sample_database 10 = Inl e \<longrightarrow>
      get_personalized_recommendations sample_library (init_service ''cpu'') 10
        \<lparr>cu_id = 7, is_admin = None\<rparr> sample_database =
        Inl (HTTPException 500 (''Error getting recommendations: '' @ str_exc sample_library e)))"
    and u: "(\<forall>e. content_based_filtering sample_library (init_service ''cpu'') 1 sample_database = Inl e \<longrightarrow>
      get_similar_recipes sample_library (init_service ''cpu'') 1 10 sample_database =
        Inl (HTTPException 500 (''Error getting similar recipes: '' @ str_exc sample_library e)))"
    using endpoints_exception_to_500 [of sample_library "init_service ''cpu''"
      "\<lparr>cu_id = 7, is_admin = None\<rparr>" sample_database 10 1]
    by blast+
  have p: "get_personalized_recommendations sample_library (init_service ''cpu'') 10
        \<lparr>cu_id = 7, is_admin = None\<rparr> sample_database =
        Inl (HTTPException 500 (''Error getting recommendations: '' @ sample_str_exc (NameError ''User'')))"
    using t g unfolding s by blast
  have q: "get_similar_recipes sample_library (init_service ''cpu'') 1 10 sample_database =
        Inl (HTTPException 500 (''Error getting similar recipes: '' @ sample_str_exc (NameError ''Recipe'')))"
    using u c unfolding s by blast
  show ?thesis using sample_get_recommendations p c q by (intro conjI)
qed

subsection \<open>C5: standardising one sample gives the zero vector\<close>




lemma column_single: "j < length row \<Longrightarrow> column [row] j = [row ! j]"
  by (simp add: column_def)



















subsection \<open>C2 and C9: filtering by preferences\<close>

lemma any_in_strings:
  "any_in xs (PStrs l) = Inr (\<exists>x \<in> set xs. x \<in> set l)"
  by (induction xs) simp_all

lemma tags_check:
  assumes "case d ''tags'' of None \<Rightarrow> True | Some (PStrs l) \<Rightarrow> True | Some _ \<Rightarrow> False"
  shows "any_in xs (dict_get d ''tags'' (PStrs [])) = Inr (\<exists>t \<in> set (recipe_tags d). t \<in> set xs)"
  using assms
  by (auto simp: dict_get_def recipe_tags_def any_in_strings split: option.splits pyval.splits)

lemma allergen_loop_decodable:
  assumes "list_all (decodable lib) l"
  shows "allergen_loop lib l allergies =
           Inr (\<exists>ing \<in> set l. \<exists>al \<in> set (ingredient_allergens lib ing). al \<in> set allergies)"
  using assms
proof (induction l)
  case Nil
  then show ?case by simp
next
  case (Cons ing l)
  then obtain al where al: "loads_or_empty lib (common_allergens ing) = Inr al"
    by (auto simp: decodable_def split: sum.splits)
  then have ia: "ingredient_allergens lib ing = al"
    by (simp add: ingredient_allergens_def)
  from Cons have IH: "allergen_loop lib l allergies =
      Inr (\<exists>ing \<in> set l. \<exists>al \<in> set (ingredient_allergens lib ing). al \<in> set allergies)"
    by simp
  show ?case using al ia IH by auto
qed

lemma allergens_check:
  assumes "case d ''ingredients'' of None \<Rightarrow> True
           | Some (PIngredients l) \<Rightarrow> list_all (decodable lib) l | Some _ \<Rightarrow> False"
  shows "check_recipe_allergens lib d allergies =
           Inr (\<exists>ing \<in> set (recipe_ingredients d).
                  \<exists>al \<in> set (ingredient_allergens lib ing). al \<in> set allergies)"
  using assms
  by (auto simp: check_recipe_allergens_def dict_get_def recipe_ingredients_def
      allergen_loop_decodable split: option.splits pyval.splits)

lemma boost_check:
  assumes "numeric d ''match_score''"
  shows "py_add (dict_get d ''match_score'' (PNum 0)) y = Inr (PNum (num_field d ''match_score'' + y))"
  using assms
  by (auto simp: numeric_def dict_get_def num_field_def split: option.splits pyval.splits)

lemma pref_complete:
  assumes "prefs_complete preferences"
  shows "pref preferences ''dietary_restrictions'' = Inr (pref_list preferences ''dietary_restrictions'')"
    and "pref preferences ''allergies'' = Inr (pref_list preferences ''allergies'')"
    and "pref preferences ''food_flags'' = Inr (pref_list preferences ''food_flags'')"
    and "pref preferences ''favorite_cuisines'' = Inr (pref_list preferences ''favorite_cuisines'')"
  using assms by (auto simp: prefs_complete_def pref_def pref_list_def)

lemma filter_step_ok:
  assumes p: "prefs_complete preferences" and r: "recipe_ok lib (h a)"
    and t: "food_flags svc = init_food_flags"
  shows "filter_step lib svc preferences h a =
           Inr (\<not> excluded lib svc preferences (h a),
                if excluded lib svc preferences (h a) then h
                else h(a := retained preferences (h a)))"
proof -
  let ?d = "h a"
  let ?T = "\<exists>t \<in> set (recipe_tags ?d). t \<in> set (pref_list preferences ''dietary_restrictions'')"
  let ?A = "\<exists>ing \<in> set (recipe_ingredients ?d). \<exists>al \<in> set (ingredient_allergens lib ing).
      al \<in> set (pref_list preferences ''allergies'')"
  let ?F = "\<exists>f \<in> set (expected_flags ?d). f \<in> set (pref_list preferences ''food_flags'')"
  have tags: "any_in (pref_list preferences ''dietary_restrictions'')
      (dict_get ?d ''tags'' (PStrs [])) = Inr ?T"
    using r by (simp add: recipe_ok_def tags_check)
  have allergens: "check_recipe_allergens lib ?d (pref_list preferences ''allergies'') = Inr ?A"
    using r by (simp add: recipe_ok_def allergens_check)
  have flags: "check_food_flags svc ?d = Inr (expected_flags ?d)"
    using r t by (simp add: recipe_ok_def check_food_flags_numeric)
  have score: "py_add (dict_get ?d ''match_score'' (PNum 0)) (2 / 10) =
      Inr (PNum (num_field ?d ''match_score'' + 2 / 10))"
    using r by (simp add: recipe_ok_def boost_check)
  have F: "(\<exists>flag \<in> set (pref_list preferences ''food_flags''). flag \<in> set (expected_flags ?d)) = ?F"
    by blast
  have ex: "excluded lib svc preferences ?d = (?T \<or> ?A \<or> ?F)"
    by (simp add: excluded_def recipe_flags_def flags)
  have step: "filter_step lib svc preferences h a =
      (if ?T then Inr (False, h)
       else if ?A then Inr (False, h)
       else if ?F then Inr (False, h)
       else Inr (True, h(a := retained preferences ?d)))"
    apply (simp only: filter_step_def Let_def pref_complete [OF p] sum.case tags allergens
        flags score F if_distrib [of "case_sum _ _"] cong: if_cong)
    apply (simp add: retained_def favorite_def)
    done
  show ?thesis unfolding step ex by simp
qed

lemma check_food_flags_cong:
  assumes "d1 ''sodium'' = d ''sodium''" "d1 ''sugar'' = d ''sugar''" "d1 ''fat'' = d ''fat''"
    "d1 ''calories'' = d ''calories''" "d1 ''carbs'' = d ''carbs''"
    "d1 ''protein'' = d ''protein''"
  shows "check_food_flags svc d1 = check_food_flags svc d"
  unfolding check_food_flags_def flag_step_def dict_get_def by (simp only: assms)

lemma retained_keys:
  assumes "k \<noteq> ''match_score''" and "k \<noteq> ''food_flags''"
  shows "retained preferences d k = d k"
  using assms by (simp add: retained_def)

lemma retained_recipe_ok:
  assumes "recipe_ok lib d"
  shows "recipe_ok lib (retained preferences d)"
proof -
  have k: "retained preferences d ''tags'' = d ''tags''"
    "retained preferences d ''ingredients'' = d ''ingredients''"
    "retained preferences d ''sodium'' = d ''sodium''"
    "retained preferences d ''sugar'' = d ''sugar''"
    "retained preferences d ''fat'' = d ''fat''"
    "retained preferences d ''calories'' = d ''calories''"
    "retained preferences d ''carbs'' = d ''carbs''"
    "retained preferences d ''protein'' = d ''protein''"
    by (simp_all add: retained_keys)
  have m: "numeric (retained preferences d) ''match_score''"
    using assms by (simp add: recipe_ok_def retained_def numeric_def)
  show ?thesis
    using assms m unfolding recipe_ok_def nutrition_numeric_def
    by (simp add: numeric_def k)
qed

lemma retained_excluded:
  "excluded lib svc preferences (retained preferences1 d) = excluded lib svc preferences d"
proof -
  have k: "retained preferences1 d ''tags'' = d ''tags''"
    "retained preferences1 d ''ingredients'' = d ''ingredients''"
    by (simp_all add: retained_keys)
  have f: "check_food_flags svc (retained preferences1 d) = check_food_flags svc d"
    by (rule check_food_flags_cong) (simp_all add: retained_keys)
  show ?thesis
    by (simp add: excluded_def recipe_tags_def recipe_ingredients_def recipe_flags_def k f)
qed

lemma filter_loop_filter:
  assumes p: "prefs_complete preferences" and t: "food_flags svc = init_food_flags"
    and r: "\<forall>a \<in> set recipes. recipe_ok lib (h a)"
  shows "\<exists>h1. filter_loop lib svc preferences h recipes =
           Inr (filter (\<lambda>a. \<not> excluded lib svc preferences (h a)) recipes, h1)"
  using r
proof (induction recipes arbitrary: h)
  case Nil
  then show ?case by simp
next
  case (Cons a recipes)
  define h1 where "h1 = (if excluded lib svc preferences (h a) then h
      else h(a := retained preferences (h a)))"
  have step: "filter_step lib svc preferences h a =
      Inr (\<not> excluded lib svc preferences (h a), h1)"
    using Cons.prems by (simp add: filter_step_ok [OF p _ t] h1_def)
  have ok: "recipe_ok lib (h1 b)" if "recipe_ok lib (h b)" for b
    using that Cons.prems by (simp add: h1_def retained_recipe_ok)
  have ex: "excluded lib svc preferences (h1 b) = excluded lib svc preferences (h b)" for b
    by (simp add: h1_def retained_excluded)
  have "\<forall>b \<in> set recipes. recipe_ok lib (h1 b)"
    using Cons.prems ok by simp
  from Cons.IH [OF this] obtain h2 where
    "filter_loop lib svc preferences h1 recipes =
       Inr (filter (\<lambda>a. \<not> excluded lib svc preferences (h1 a)) recipes, h2)"
    by blast
  then have "filter_loop lib svc preferences h1 recipes =
       Inr (filter (\<lambda>a. \<not> excluded lib svc preferences (h a)) recipes, h2)"
    by (simp add: ex)
  then show ?case using step by simp
qed


lemma sample_prefs_complete: "prefs_complete sample_preferences"
  by (simp add: prefs_complete_def sample_preferences_def)

lemma sample_table: "food_flags (init_service ''cpu'') = init_food_flags"
  by (simp add: init_service_def)

lemma sample_loads:
  "loads_or_empty sample_library (Some (json_array1 ''nuts'')) = Inr [''nuts'']"
  by (simp add: loads_or_empty_def sample_library_def sample_json_loads_def json_array1_def)

lemma sample_store_ok: "recipe_ok sample_library (sample_store a)"
  by (simp add: recipe_ok_def sample_store_def nutrition_numeric_def numeric_def
      decodable_def sample_loads)

lemma sample_flags:
  "recipe_flags (init_service ''cpu'') (sample_store a) =
     (if a = 3 then [''high_sodium''] else if a \<in> {0, 1, 2, 4} then [] else [''low_protein''])"
proof -
  have n: "nutrition_numeric (sample_store a)"
    using sample_store_ok [of a] by (simp add: recipe_ok_def)
  show ?thesis
    unfolding recipe_flags_def check_food_flags_numeric [OF n sample_table]
    by (simp add: expected_flags_def num_field_def sample_store_def)
qed

lemma sample_excluded:
  "excluded sample_library (init_service ''cpu'') sample_preferences (sample_store a) =
     (a \<in> {1, 2, 3})"
proof -
  have t: "recipe_tags (sample_store a) = (if a = 1 then [''vegan''] else [])"
    by (simp add: recipe_tags_def sample_store_def)
  have i: "recipe_ingredients (sample_store a) =
      (if a = 2 then [\<lparr>name = ''walnut'', common_allergens = Some (json_array1 ''nuts'')\<rparr>]
       else [])"
    by (simp add: recipe_ingredients_def sample_store_def)
  have al: "ingredient_allergens sample_library
      \<lparr>name = ''walnut'', common_allergens = Some (json_array1 ''nuts'')\<rparr> = [''nuts'']"
    by (simp add: ingredient_allergens_def sample_loads)
  have p: "pref_list sample_preferences ''dietary_restrictions'' = [''vegan'']"
    "pref_list sample_preferences ''allergies'' = [''nuts'']"
    "pref_list sample_preferences ''food_flags'' = [''high_sodium'']"
    by (simp_all add: pref_list_def sample_preferences_def)
  show ?thesis
    unfolding excluded_def t i p sample_flags by (auto simp: al)
qed



text \<open>
  Claim C2. For preferences that carry their four lists and recipe dicts of the expected
  shape, \<^verbatim>\<open>filter_by_preferences\<close> returns exactly the recipes of its input that are
  not excluded, in their input order: a recipe is removed if and only if one of its
  tags is a dietary restriction of the user, or a common allergen of one of its
  ingredients is an allergy of the user, or a flag \<^verbatim>\<open>check_food_flags\<close> computes for
  it is a food flag of the user. The same object may occur several times in the input.
\<close>

theorem filter_by_preferences_removes_excluded:
  assumes "prefs_complete preferences" and "food_flags svc = init_food_flags"
    and "\<forall>a \<in> set recipes. recipe_ok lib (h a)"
  shows "\<exists>h1. filter_by_preferences lib svc h recipes preferences =
           Inr (filter (\<lambda>a. \<not> excluded lib svc preferences (h a)) recipes, h1)"
  unfolding filter_by_preferences_def using assms by (rule filter_loop_filter)

theorem filter_by_preferences_removes_excluded_witness:
  "prefs_complete sample_preferences \<and>
   food_flags (init_service ''cpu'') = init_food_flags \<and>
   list_all (\<lambda>a. recipe_ok sample_library (sample_store a)) [0, 1, 2, 0, 3, 4] \<and>
   (\<exists>h1. filter_by_preferences sample_library (init_service ''cpu'') sample_store
            [0, 1, 2, 0, 3, 4] sample_preferences = Inr ([0, 0, 4], h1))"
proof -
  have ok: "\<forall>a \<in> set [0, 1, 2, 0, 3, 4]. recipe_ok sample_library (sample_store a)"
    by (simp add: sample_store_ok)
  have f: "filter (\<lambda>a. \<not> excluded sample_library (init_service ''cpu'') sample_preferences
      (sample_store a)) [0, 1, 2, 0, 3, 4] = [0, 0, 4]"
    by (simp add: sample_excluded)
  from filter_by_preferences_removes_excluded [OF sample_prefs_complete sample_table ok]
  have "\<exists>h1. filter_by_preferences sample_library (init_service ''cpu'') sample_store
            [0, 1, 2, 0, 3, 4] sample_preferences = Inr ([0, 0, 4], h1)"
    unfolding f .
  then show ?thesis
    using sample_prefs_complete sample_table by (simp add: sample_store_ok)
qed






subsection \<open>C8: early stopping and the periodic checkpoint\<close>

lemma save_checkpoint_losses:
  "val_losses (save_checkpoint t epoch v) = val_losses t"
  by (simp add: save_checkpoint_def Let_def)

lemma save_checkpoint_best_set:
  "best_val_loss (save_checkpoint (t\<lparr>best_val_loss := Some v\<rparr>) epoch v) = Some v"
  by (simp add: save_checkpoint_def Let_def below_best_def)

lemma train_loop_without_checkpoints:
  assumes "save_interval \<noteq> 0"
    and "\<forall>e. epoch \<le> e \<and> e < epoch + k \<longrightarrow> (int e + 1) mod save_interval \<noteq> 0"
  shows "\<exists>t1. train_loop run n save_interval patience k epoch pc t = Inr t1 \<and>
           length (val_losses t1) + epoch =
             length (val_losses t) +
               early_stopping_epochs (\<lambda>i. snd (run i)) patience k epoch (best_val_loss t) pc"
  using assms(2)
proof (induction k arbitrary: epoch pc t)
  case 0
  then show ?case by simp
next
  case (Suc k)
  have here: "(int epoch + 1) mod save_interval \<noteq> 0"
    using Suc.prems by simp
  have later: "\<forall>e. Suc epoch \<le> e \<and> e < Suc epoch + k \<longrightarrow> (int e + 1) mod save_interval \<noteq> 0"
    using Suc.prems by simp
  let ?v = "snd (run epoch)"
  let ?t3 = "t\<lparr>logged := logged t @ [LogEpoch (epoch + 1) n, LogLosses (fst (run epoch)) ?v],
             train_losses := train_losses t @ [fst (run epoch)],
             val_losses := val_losses t @ [?v]\<rparr>"
  show ?case
  proof (cases "below_best ?v (best_val_loss t)")
    case True
    let ?t5 = "save_checkpoint (?t3\<lparr>best_val_loss := Some ?v\<rparr>) epoch ?v"
    from Suc.IH [OF later, of 0 ?t5] obtain t1 where
      "train_loop run n save_interval patience k (Suc epoch) 0 ?t5 = Inr t1"
      "length (val_losses t1) + Suc epoch = length (val_losses ?t5) +
         early_stopping_epochs (\<lambda>i. snd (run i)) patience k (Suc epoch) (best_val_loss ?t5) 0"
      by blast
    then show ?thesis
      using True here assms(1)
      by (simp add: Let_def save_checkpoint_losses save_checkpoint_best_set)
  next
    case False
    show ?thesis
    proof (cases "pc + 1 \<ge> patience")
      case True
      then show ?thesis using False here assms(1) by (simp add: Let_def)
    next
      case stay: False
      from Suc.IH [OF later, of "pc + 1" ?t3] obtain t1 where
        "train_loop run n save_interval patience k (Suc epoch) (pc + 1) ?t3 = Inr t1"
        "length (val_losses t1) + Suc epoch = length (val_losses ?t3) +
           early_stopping_epochs (\<lambda>i. snd (run i)) patience k (Suc epoch) (best_val_loss ?t3)
             (pc + 1)"
        by blast
      then show ?thesis using False stay here assms(1) by (simp add: Let_def)
    qed
  qed
qed

lemma sample_spec_epochs: "early_stopping_epochs sample_val_loss 10 100 0 None 0 = 20"
  by code_simp

lemma sample_train_summary:
  "training_summary (train sample_run init_trainer 100 5 10) =
     Inr (11, LogEarlyStopping 11, Some 4)"
  by code_simp

lemma sample_improves: "sample_val_loss 9 < sample_val_loss 4"
  by (simp add: sample_val_loss_def)


lemma train_loop_at_most:
  assumes "train_loop run n save_interval patience k epoch pc t = Inr t1"
  shows "length (val_losses t1) \<le> length (val_losses t) + k"
  using assms
proof (induction k arbitrary: epoch pc t)
  case 0
  then show ?case by simp
next
  case (Suc k)
  have "(\<exists>t2 pc2. train_loop run n save_interval patience k (Suc epoch) pc2 t2 = Inr t1 \<and>
            length (val_losses t2) = length (val_losses t) + 1) \<or>
        length (val_losses t1) = length (val_losses t) + 1"
    using Suc.prems
    by (fastforce simp: Let_def save_checkpoint_losses split: if_splits)
  then show ?case
  proof
    assume "\<exists>t2 pc2. train_loop run n save_interval patience k (Suc epoch) pc2 t2 = Inr t1 \<and>
        length (val_losses t2) = length (val_losses t) + 1"
    then obtain t2 pc2 where
      "train_loop run n save_interval patience k (Suc epoch) pc2 t2 = Inr t1"
      and l: "length (val_losses t2) = length (val_losses t) + 1"
      by blast
    from Suc.IH [OF this(1)] l show ?thesis by simp
  next
    assume "length (val_losses t1) = length (val_losses t) + 1"
    then show ?thesis by simp
  qed
qed

text \<open>
  Claim C8 says that \<^verbatim>\<open>train\<close> stops at the first epoch by which the validation loss
  has failed to improve on the best loss seen so far for \<^verbatim>\<open>early_stopping_patience\<close>
  consecutive epochs. On the sample run, with the settings of \<^verbatim>\<open>main()\<close>, the loss of
  the tenth epoch (index 9) is below every earlier one, and the rule stops after 20
  epochs. The code stops after 11: at an epoch where \<^verbatim>\<open>(epoch + 1) % save_interval == 0\<close>,
  \<^verbatim>\<open>save_checkpoint\<close> lowers \<^verbatim>\<open>best_val_loss\<close> before the early-stopping test reads
  it, so an improving epoch is counted as one without improvement.
\<close>

theorem train_counts_checkpoint_epochs_as_stale:
  "training_summary (train sample_run init_trainer 100 5 10) =
     Inr (11, LogEarlyStopping 11, Some 4) \<and>
   early_stopping_epochs sample_val_loss 10 100 0 None 0 = 20 \<and>
   sample_val_loss 9 < sample_val_loss 4"
  using sample_train_summary sample_spec_epochs sample_improves by (intro conjI)

end
